theory Spec2Isabelle
  imports Complex_Main "HOL-Library.Word"
begin

section \<open>Machine integers and durations\<close>

text \<open>
  Go's \<open>int\<close> (on the 64-bit platforms the server targets), \<open>int64\<close> and
  \<open>time.Duration\<close> (an \<open>int64\<close> count of nanoseconds) are modelled as \<open>int\<close> with the
  two's-complement wrap-around written out by \<open>wrap64\<close> wherever the source adds or shifts.
\<close>

definition wrap64 :: "int \<Rightarrow> int" where
  "wrap64 x = (x + 2 ^ 63) mod 2 ^ 64 - 2 ^ 63"

definition Nanosecond :: int where "Nanosecond = 1"
definition Second :: int where "Second = 1000000000"
definition Minute :: int where "Minute = 60 * Second"

section \<open>backoff.go: the backoff parameters\<close>

text \<open>
  The struct \<open>backoff\<close>. The three \<open>float64\<close> fields are modelled by the real numbers
  they denote (finite values only); rounding of floating-point results is not modelled.
  The fields \<open>Min\<close> and \<open>Max\<close> carry a suffix because HOL already has constants of
  these names.
\<close>

record backoff =
  Interval :: int
  Factor :: real
  Grow :: int
  Min_dur :: int
  Max_dur :: int
  MaxExp :: int
  ExpM :: real
  ExpScale :: real

datatype check_error =
    FactorError | GrowError | MinError | MaxError | MaxExpError | ExpMError | ExpScaleError

text \<open>\<open>func (b *backoff) Check() error\<close>: the first failing case of the switch wins.\<close>

definition Check :: "backoff \<Rightarrow> check_error option" where
  "Check b =
     (if Factor b < 1 then Some FactorError
      else if Grow b < 0 then Some GrowError
      else if Min_dur b < 0 then Some MinError
      else if Max_dur b < Min_dur b then Some MaxError
      else if MaxExp b \<le> 0 \<or> MaxExp b > 60 then Some MaxExpError
      else if ExpM b < 0 then Some ExpMError
      else if ExpScale b < 0 then Some ExpScaleError
      else None)"

definition DefaultBackoff :: backoff where
  "DefaultBackoff =
     \<lparr> Interval = 15 * Second, Factor = 1, Grow = Second, Min_dur = 7 * Second,
       Max_dur = 3 * Minute, MaxExp = 20, ExpM = 1, ExpScale = 3 / 2 \<rparr>"

subsection \<open>math/big integers: values behind pointers\<close>

text \<open>
  A \<open>*big.Int\<close> is a pointer; \<open>z.Lsh(x, n)\<close> and \<open>z.Add(x, y)\<close> store their result in
  the receiver \<open>z\<close> and return \<open>z\<close>. Since \<open>randfactor\<close> passes the same pointer as
  receiver and as operand, the integers live in an explicit store: \<open>cells\<close> maps an
  address to its value and \<open>fresh\<close> is the next unused address.
\<close>

record bigstore =
  cells :: "nat \<Rightarrow> int"
  fresh :: nat

definition bigstore0 :: bigstore where
  "bigstore0 = \<lparr> cells = (\<lambda>_. 0), fresh = 0 \<rparr>"

definition big_NewInt :: "int \<Rightarrow> bigstore \<Rightarrow> nat \<times> bigstore" where
  "big_NewInt v s = (fresh s, \<lparr> cells = (cells s)(fresh s := v), fresh = Suc (fresh s) \<rparr>)"

definition big_Lsh :: "nat \<Rightarrow> nat \<Rightarrow> nat \<Rightarrow> bigstore \<Rightarrow> nat \<times> bigstore" where
  "big_Lsh z x n s = (z, s\<lparr> cells := (cells s)(z := cells s x * 2 ^ n) \<rparr>)"

definition big_Add :: "nat \<Rightarrow> nat \<Rightarrow> nat \<Rightarrow> bigstore \<Rightarrow> nat \<times> bigstore" where
  "big_Add z x y s = (z, s\<lparr> cells := (cells s)(z := cells s x + cells s y) \<rparr>)"

subsection \<open>randfactor\<close>

text \<open>
  Lines 49 to 59 of \<open>randfactor\<close>, for \<open>retry \<ge> 1\<close>: the clamp of \<open>retry\<close> and the
  exclusive upper bound handed to \<open>rand.Int\<close>. The operands are evaluated left to
  right: \<open>max.Lsh(max, uint(retry-1))\<close> first overwrites \<open>max\<close> with the shifted value
  and returns the same pointer, then \<open>big.NewInt(128)\<close> allocates, then \<open>max.Add\<close>
  adds the two operands into \<open>max\<close>.
\<close>

definition eff_retry :: "backoff \<Rightarrow> int \<Rightarrow> int" where
  "eff_retry b retry =
     (let maxex = MaxExp b;
          maxex = (if maxex \<le> 0 \<or> maxex > 60 then 60 else maxex)
      in if retry > maxex then maxex else retry)"

definition randfactor_max :: "backoff \<Rightarrow> int \<Rightarrow> int" where
  "randfactor_max b retry0 =
     (let retry = eff_retry b retry0;
          (mx, s) = big_NewInt (wrap64 (128 + wrap64 (2 ^ nat retry))) bigstore0;
          (t, s) = big_Lsh mx mx (nat (retry - 1)) s;
          (c, s) = big_NewInt 128 s;
          (mx, s) = big_Add mx t c s
      in cells s mx)"

text \<open>
  What \<open>rand.Int(rand.Reader, max)\<close> hands back: an error of the random source, or a
  number \<open>n\<close> (which the library draws uniformly from \<open>[0, max)\<close>). The random
  source is a function from the bound it is asked with to the outcome of the draw, so
  that the bound \<open>randfactor\<close> passes is visible in the model.
\<close>

datatype rand_result = RandErr | Rand int

type_synonym rand_source = "int \<Rightarrow> rand_result"

text \<open>
  The contract of \<open>rand.Int\<close> in \<open>crypto/rand\<close>: for a bound \<open>max > 0\<close> it returns
  a uniform random value in \<open>[0, max)\<close>, or the error of the reader.
  \<open>rand_Int_outcomes bound\<close> lists the values of a draw that succeeds, each as likely as
  any other: every integer of \<open>[0, max)\<close> once. A random source answers a bound as
  \<open>rand.Int\<close> does when it reports an error or returns one of these values.
\<close>

definition rand_Int_outcomes :: "int \<Rightarrow> int list" where
  "rand_Int_outcomes bound = [0..bound - 1]"

definition rand_Int_returns :: "rand_source \<Rightarrow> int \<Rightarrow> bool" where
  "rand_Int_returns rnd bound =
     (case rnd bound of
        RandErr \<Rightarrow> True
      | Rand n \<Rightarrow> n \<in> set (rand_Int_outcomes bound))"

datatype panic = RandPanic | ErrNaN

definition MaxFloat64 :: real where
  "MaxFloat64 = 2 ^ 1024 - 2 ^ 971"

text \<open>
  \<open>randfactor\<close> itself. \<open>tf\<close> and \<open>f\<close> are \<open>*big.Float\<close>; following the receiver
  of each call, \<open>tf\<close> becomes \<open>max / 4 + ExpM\<close> and \<open>f\<close> becomes \<open>n / tf\<close>, times
  \<open>ExpScale\<close> when that is positive. \<open>big.Float\<close> division of zero by zero panics
  with \<open>ErrNaN\<close>; a non-zero numerator over zero, or a quotient too large for a
  \<open>float64\<close>, reads back as an infinity and is replaced by 16000000.
\<close>

definition randfactor :: "backoff \<Rightarrow> int \<Rightarrow> rand_source \<Rightarrow> panic + real" where
  "randfactor b retry rnd =
     (if retry < 1 then Inr 0
      else
        let mx = randfactor_max b retry in
        case rnd mx of
          RandErr \<Rightarrow> Inl RandPanic
        | Rand n \<Rightarrow>
            let tf = real_of_int mx / 4 + ExpM b in
            if tf = 0 then (if n = 0 then Inl ErrNaN else Inr 16000000)
            else
              let f = real_of_int n / tf;
                  f = (if ExpScale b > 0 then f * ExpScale b else f)
              in if \<bar>f\<bar> > MaxFloat64 then Inr 16000000 else Inr f)"

subsection \<open>backoff\<close>

text \<open>
  The conversion \<open>time.Duration(x)\<close> of a \<open>float64\<close>: truncation toward zero; outside
  the range of \<open>int64\<close> the result is implementation-dependent, and the value the amd64
  instruction yields is taken here.
\<close>

definition Duration_of_float :: "real \<Rightarrow> int" where
  "Duration_of_float x =
     (let t = (if x \<ge> 0 then \<lfloor>x\<rfloor> else \<lceil>x\<rceil>)
      in if - (2 ^ 63) \<le> t \<and> t < 2 ^ 63 then t else - (2 ^ 63))"

text \<open>
  Lines 89 to 92 of \<open>backoff\<close>: the delay before clamping. \<open>rnd\<close> is the random source
  that \<open>randfactor\<close> calls once.
\<close>

definition backoff_next :: "backoff \<Rightarrow> int \<Rightarrow> rand_source \<Rightarrow> panic + int" where
  "backoff_next b retry rnd =
     (let next = Interval b;
          factor = (Factor b * real_of_int retry) * real_of_int (Grow b)
      in if factor > 0 then
           (case randfactor b retry rnd of
              Inl p \<Rightarrow> Inl p
            | Inr r \<Rightarrow> Inr (wrap64 (next + Duration_of_float (factor * r))))
         else Inr next)"

text \<open>
  \<open>func (b *backoff) backoff(retry, _ int) time.Duration\<close>. The second parameter is the
  blank identifier of the source.
\<close>

definition backoff :: "backoff \<Rightarrow> int \<Rightarrow> int \<Rightarrow> rand_source \<Rightarrow> panic + int" where
  "backoff b retry maxRetries rnd =
     (if retry < 1 then Inr (Min_dur b)
      else
        case backoff_next b retry rnd of
          Inl p \<Rightarrow> Inl p
        | Inr next \<Rightarrow>
            Inr (if next < 0 then 0
                 else if Min_dur b > 0 \<and> next < Min_dur b then Min_dur b
                 else if Max_dur b > 0 \<and> next > Max_dur b then Max_dur b
                 else next))"


text \<open>A random source that always draws 100, for concrete evaluations.\<close>

definition draw_100 :: rand_source where
  "draw_100 = (\<lambda>_. Rand 100)"

section \<open>Addresses\<close>

text \<open>The struct \<open>Addr\<close> and its display form \<open>func (a *Addr) String() string\<close>.\<close>

record Addr =
  Network :: string
  Addr :: string

definition Addr_String :: "Addr \<Rightarrow> string" where
  "Addr_String a = Network a @ ''('' @ Addr a @ '')''"

subsection \<open>The library calls of ParseAddr\<close>

text \<open>
  \<open>ParseAddr\<close> calls \<open>url.Parse\<close> and \<open>net.SplitHostPort\<close> of Go's standard
  library. Both are string functions; they are written out here after the library, as
  far as \<open>ParseAddr\<close> can observe them. Of a parsed URL only the six fields that
  \<open>ParseAddr\<close> and the gateway read are kept, with \<open>User\<close> reduced to its presence.
\<close>

record URL =
  Scheme :: string
  Opaque :: string
  User :: "string option"
  Host :: string
  Path :: string
  RawQuery :: string
  Fragment :: string

definition URL0 :: URL where
  "URL0 = \<lparr> Scheme = [], Opaque = [], User = None, Host = [], Path = [], RawQuery = [],
            Fragment = [] \<rparr>"

datatype url_error =
    InvalidControlCharacter | MissingProtocolScheme | FirstPathSegmentColon
  | EscapeError | AuthorityError

definition is_letter :: "char \<Rightarrow> bool" where
  "is_letter c = ((97 \<le> (of_char c :: nat) \<and> (of_char c :: nat) \<le> 122) \<or>
                  (65 \<le> (of_char c :: nat) \<and> (of_char c :: nat) \<le> 90))"

definition is_digit :: "char \<Rightarrow> bool" where
  "is_digit c = (48 \<le> (of_char c :: nat) \<and> (of_char c :: nat) \<le> 57)"

definition ToLower :: "string \<Rightarrow> string" where
  "ToLower s =
     map (\<lambda>c. if 65 \<le> (of_char c :: nat) \<and> (of_char c :: nat) \<le> 90
               then char_of ((of_char c :: nat) + 32) else c) s"

definition HasPrefix :: "string \<Rightarrow> string \<Rightarrow> bool" where
  "HasPrefix s p = (take (length p) s = p)"

definition HasSuffix :: "string \<Rightarrow> string \<Rightarrow> bool" where
  "HasSuffix s p = (length p \<le> length s \<and> drop (length s - length p) s = p)"

text \<open>\<open>strings.Cut\<close> at a one-byte separator: the text before and after its first occurrence.\<close>

definition Cut :: "string \<Rightarrow> char \<Rightarrow> string \<times> string" where
  "Cut s c = (takeWhile (\<lambda>x. x \<noteq> c) s, drop 1 (dropWhile (\<lambda>x. x \<noteq> c) s))"

text \<open>
  \<open>getScheme\<close> of \<open>net/url\<close>: scan for the colon that ends a scheme; a byte that cannot
  be part of a scheme means there is none, and the whole input is the rest.
\<close>

fun getScheme_scan :: "string \<Rightarrow> nat \<Rightarrow> string \<Rightarrow> url_error + string \<times> string" where
  "getScheme_scan rawURL i [] = Inr ([], rawURL)"
| "getScheme_scan rawURL i (c # cs) =
     (if is_letter c then getScheme_scan rawURL (Suc i) cs
      else if is_digit c \<or> c = CHR ''+'' \<or> c = CHR ''-'' \<or> c = CHR ''.'' then
        (if i = 0 then Inr ([], rawURL) else getScheme_scan rawURL (Suc i) cs)
      else if c = CHR '':'' then
        (if i = 0 then Inl MissingProtocolScheme
         else Inr (take i rawURL, drop (Suc i) rawURL))
      else Inr ([], rawURL))"

definition getScheme :: "string \<Rightarrow> url_error + string \<times> string" where
  "getScheme rawURL = getScheme_scan rawURL 0 rawURL"

definition stringContainsCTLByte :: "string \<Rightarrow> bool" where
  "stringContainsCTLByte s = (\<exists>c \<in> set s. (of_char c :: nat) < 32 \<or> (of_char c :: nat) = 127)"

definition ishex :: "char \<Rightarrow> bool" where
  "ishex c =
     (is_digit c \<or> (97 \<le> (of_char c :: nat) \<and> (of_char c :: nat) \<le> 102) \<or>
      (65 \<le> (of_char c :: nat) \<and> (of_char c :: nat) \<le> 70))"

definition unhex :: "char \<Rightarrow> nat" where
  "unhex c =
     (if is_digit c then of_char c - 48
      else if 97 \<le> (of_char c :: nat) \<and> (of_char c :: nat) \<le> 102 then of_char c - 97 + 10
      else if 65 \<le> (of_char c :: nat) \<and> (of_char c :: nat) \<le> 70 then of_char c - 65 + 10
      else 0)"

text \<open>
  \<open>unescape\<close> in the modes used for a path and for a fragment: every \<open>%XX\<close> becomes
  one byte, a malformed escape is an error, all other bytes pass.
\<close>

fun unescape :: "string \<Rightarrow> url_error + string" where
  "unescape [] = Inr []"
| "unescape (c # cs) =
     (if c = CHR ''%'' then
        (case cs of
           a # b # rest \<Rightarrow>
             (if ishex a \<and> ishex b then
                (case unescape rest of
                   Inl e \<Rightarrow> Inl e
                 | Inr r \<Rightarrow> Inr (char_of (unhex a * 16 + unhex b) # r))
              else Inl EscapeError)
         | _ \<Rightarrow> Inl EscapeError)
      else (case unescape cs of Inl e \<Rightarrow> Inl e | Inr r \<Rightarrow> Inr (c # r)))"

text \<open>
  \<open>parse\<close> of \<open>net/url\<close> (not via a request). The parsing of an authority
  (\<open>user@host:port\<close>, with its checks of the port, of bracketed literals and of escapes)
  is not written out: \<open>parseAuthority\<close> is a parameter giving the host or an error,
  and what is proved holds for each such function.
\<close>

type_synonym authority_parser = "string \<Rightarrow> url_error + string"

definition setPath :: "URL \<Rightarrow> string \<Rightarrow> url_error + URL" where
  "setPath url p = (case unescape p of Inl e \<Rightarrow> Inl e | Inr path \<Rightarrow> Inr (url\<lparr>Path := path\<rparr>))"

definition url_parse :: "authority_parser \<Rightarrow> string \<Rightarrow> url_error + URL" where
  "url_parse parseAuthority rawURL =
     (if stringContainsCTLByte rawURL then Inl InvalidControlCharacter
      else if rawURL = ''*'' then Inr (URL0\<lparr>Path := ''*''\<rparr>)
      else
        case getScheme rawURL of
          Inl e \<Rightarrow> Inl e
        | Inr (scheme, rest0) \<Rightarrow>
            let url = URL0\<lparr>Scheme := ToLower scheme\<rparr>;
                (rest, url) =
                  (if HasSuffix rest0 ''?'' \<and> count_list rest0 CHR ''?'' = 1
                   then (butlast rest0, url)
                   else (fst (Cut rest0 CHR ''?''), url\<lparr>RawQuery := snd (Cut rest0 CHR ''?'')\<rparr>))
            in
              if \<not> HasPrefix rest ''/'' \<and> Scheme url \<noteq> [] then Inr (url\<lparr>Opaque := rest\<rparr>)
              else if \<not> HasPrefix rest ''/'' \<and> CHR '':'' \<in> set (fst (Cut rest CHR ''/''))
                then Inl FirstPathSegmentColon
              else if (Scheme url \<noteq> [] \<or> \<not> HasPrefix rest ''///'') \<and> HasPrefix rest ''//'' then
                (let authority = takeWhile (\<lambda>x. x \<noteq> CHR ''/'') (drop 2 rest);
                     rest = dropWhile (\<lambda>x. x \<noteq> CHR ''/'') (drop 2 rest)
                 in case parseAuthority authority of
                      Inl e \<Rightarrow> Inl e
                    | Inr host \<Rightarrow> setPath (url\<lparr>Host := host\<rparr>) rest)
              else setPath url rest)"

definition url_Parse :: "authority_parser \<Rightarrow> string \<Rightarrow> url_error + URL" where
  "url_Parse parseAuthority rawURL =
     (let u = fst (Cut rawURL CHR ''#''); frag = snd (Cut rawURL CHR ''#'')
      in case url_parse parseAuthority u of
           Inl e \<Rightarrow> Inl e
         | Inr url \<Rightarrow>
             if frag = [] then Inr url
             else (case unescape frag of
                     Inl e \<Rightarrow> Inl e
                   | Inr f \<Rightarrow> Inr (url\<lparr>Fragment := f\<rparr>)))"

text \<open>
  An authority parser for the authorities of the concrete examples below: a host of
  letters, digits, dots and hyphens with an optional port of digits is returned as it
  is; everything else is left to the library and counts as an error here.
\<close>

definition simple_authority :: authority_parser where
  "simple_authority a =
     (let h = takeWhile (\<lambda>x. x \<noteq> CHR '':'') a; p = drop 1 (dropWhile (\<lambda>x. x \<noteq> CHR '':'') a)
      in if (\<forall>c \<in> set h. is_letter c \<or> is_digit c \<or> c = CHR ''.'' \<or> c = CHR ''-'') \<and>
            (\<forall>c \<in> set p. is_digit c)
         then Inr a else Inl AuthorityError)"

datatype addr_error =
    MissingPort | TooManyColons | MissingRBracket | UnexpectedLBracket | UnexpectedRBracket

definition IndexByte :: "string \<Rightarrow> char \<Rightarrow> nat option" where
  "IndexByte s c = (if c \<in> set s then Some (length (takeWhile (\<lambda>x. x \<noteq> c) s)) else None)"

definition LastIndexByte :: "string \<Rightarrow> char \<Rightarrow> nat option" where
  "LastIndexByte s c =
     (if c \<in> set s then Some (length s - 1 - length (takeWhile (\<lambda>x. x \<noteq> c) (rev s))) else None)"

text \<open>
  \<open>net.SplitHostPort\<close>: the port starts after the last colon; a host in brackets ends
  at the first \<open>]\<close>, which must stand just before that colon. \<open>j\<close> and \<open>k\<close> are the
  positions from which a stray \<open>[\<close> or \<open>]\<close> is looked for.
\<close>

definition SplitHostPort :: "string \<Rightarrow> addr_error + string \<times> string" where
  "SplitHostPort hostport =
     (case LastIndexByte hostport CHR '':'' of
        None \<Rightarrow> Inl MissingPort
      | Some i \<Rightarrow>
          let finish = (\<lambda>host j k.
                if CHR ''['' \<in> set (drop j hostport) then Inl UnexpectedLBracket
                else if CHR '']'' \<in> set (drop k hostport) then Inl UnexpectedRBracket
                else Inr (host, drop (i + 1) hostport))
          in
            if take 1 hostport = ''['' then
              (case IndexByte hostport CHR '']'' of
                 None \<Rightarrow> Inl MissingRBracket
               | Some e \<Rightarrow>
                   if e + 1 = length hostport then Inl MissingPort
                   else if e + 1 = i then finish (take (e - 1) (drop 1 hostport)) 1 (e + 1)
                   else if take 1 (drop (e + 1) hostport) = '':'' then Inl TooManyColons
                   else Inl MissingPort)
            else
              (let host = take i hostport
               in if CHR '':'' \<in> set host then Inl TooManyColons else finish host 0 0))"

subsection \<open>ParseAddr\<close>

datatype parse_error =
    HasFragment | HasQuery | HasPath | NoProtocol | InvalidProtocol string
  | SplitError addr_error | NoPort

text \<open>
  \<open>func ParseAddr(hostport string) (addr *Addr, err error)\<close>. The first switch has one
  case per line of the source; when \<open>url.Parse\<close> fails, its first case (with an empty
  body) is taken and the network stays \<open>udp\<close> with the input as host and port.
\<close>

definition ParseAddr :: "authority_parser \<Rightarrow> string \<Rightarrow> parse_error + Addr" where
  "ParseAddr parseAuthority hostport0 =
     (let netw0 = ''udp'';
          sw = (case url_Parse parseAuthority hostport0 of
                  Inl err \<Rightarrow> Inr (netw0, hostport0)
                | Inr u \<Rightarrow>
                    if Fragment u \<noteq> [] then Inl HasFragment
                    else if RawQuery u \<noteq> [] then Inl HasQuery
                    else if Path u \<noteq> [] then Inl HasPath
                    else if Scheme u = [] then Inl NoProtocol
                    else if Scheme u \<noteq> [] \<and> Opaque u \<noteq> [] then Inr (Scheme u, Opaque u)
                    else if Scheme u \<noteq> [] \<and> Host u \<noteq> [] then Inr (Scheme u, Host u)
                    else Inr (netw0, hostport0))
      in case sw of
           Inl e \<Rightarrow> Inl e
         | Inr (netw, hostport) \<Rightarrow>
             if netw \<noteq> ''udp'' \<and> netw \<noteq> ''udp4'' \<and> netw \<noteq> ''udp6'' then Inl (InvalidProtocol netw)
             else
               (case SplitHostPort hostport of
                  Inl e \<Rightarrow> Inl (SplitError e)
                | Inr (h, p) \<Rightarrow>
                    if p = [] then Inl NoPort
                    else Inr \<lparr> Network = netw, Addr = hostport \<rparr>))"


section \<open>Configuration: the port section and its backoff directive\<close>

text \<open>
  Pointers are addresses of an explicit heap (introduced with the gateway below); a nil
  pointer is \<open>None\<close>. A slice is the address of its backing array (nil for the nil
  slice) and its length.
\<close>

record slice =
  base :: "nat option"
  slen :: nat

definition nil_slice :: slice where
  "nil_slice = \<lparr> base = None, slen = 0 \<rparr>"

record PortConfig =
  Listen :: slice
  Forward :: "nat option"
  FlushInterval :: int
  FlushSizeBytes :: int
  WriteTimeout :: int
  ReadTimeout :: int
  MaxRetries :: int
  Backoff :: backoff

definition NewPortConfig :: PortConfig where
  "NewPortConfig =
     \<lparr> Listen = nil_slice, Forward = None, FlushInterval = Second * 5, FlushSizeBytes = 16000,
       WriteTimeout = Second * 15, ReadTimeout = Second * 10, MaxRetries = 10,
       Backoff = DefaultBackoff \<rparr>"

text \<open>
  A parameter node of the configuration language (\<open>codf.ExprNode\<close>) is seen by the
  handlers only through the library's conversions \<open>codf.Word\<close>, \<open>codf.Duration\<close>,
  \<open>codf.Float64\<close> and \<open>codf.Int64\<close>; a node is modelled by what each of them returns
  for it (\<open>None\<close> when the conversion does not apply).
\<close>

record ExprNode =
  codf_Word :: "string option"
  codf_Duration :: "int option"
  codf_Float64 :: "real option"
  codf_Int64 :: "int option"

definition word_node :: "string \<Rightarrow> ExprNode" where
  "word_node w =
     \<lparr> codf_Word = Some w, codf_Duration = None, codf_Float64 = None, codf_Int64 = None \<rparr>"

definition duration_node :: "int \<Rightarrow> ExprNode" where
  "duration_node d =
     \<lparr> codf_Word = None, codf_Duration = Some d, codf_Float64 = None, codf_Int64 = None \<rparr>"

definition float_node :: "real \<Rightarrow> ExprNode" where
  "float_node f =
     \<lparr> codf_Word = None, codf_Duration = None, codf_Float64 = Some f, codf_Int64 = None \<rparr>"

text \<open>
  The destinations that \<open>handleBackoff\<close> passes to \<open>parseArg\<close>: a keyword to match, or a
  pointer to a duration, a float or an int. A pointer into the state \<open>'s\<close> is modelled
  by the assignment through it.
\<close>

datatype 's dest =
    Keyword string
  | DurationPtr "int \<Rightarrow> 's \<Rightarrow> 's"
  | Float64Ptr "real \<Rightarrow> 's \<Rightarrow> 's"
  | IntPtr "int \<Rightarrow> 's \<Rightarrow> 's"

datatype config_error =
    ExpectedOneOrMore
  | ExpectedCount nat nat
  | ParseParameter nat string
  | InvalidArgument
  | CheckError check_error

text \<open>
  \<open>parseArg\<close>, for these destinations. It returns the state (changed only on success)
  and the error, if any, as the name of what was expected. On a 64-bit platform the
  range test of the \<open>*int\<close> case never fails.
\<close>

fun parseArg :: "ExprNode \<Rightarrow> 's dest \<Rightarrow> 's \<Rightarrow> 's \<times> string option" where
  "parseArg arg (Keyword v) s =
     (if codf_Word arg = Some v then (s, None) else (s, Some (''keyword '' @ v)))"
| "parseArg arg (DurationPtr assign) s =
     (case codf_Duration arg of Some d \<Rightarrow> (assign d s, None) | None \<Rightarrow> (s, Some ''duration''))"
| "parseArg arg (Float64Ptr assign) s =
     (case codf_Float64 arg of Some f \<Rightarrow> (assign f s, None) | None \<Rightarrow> (s, Some ''float''))"
| "parseArg arg (IntPtr assign) s =
     (case codf_Int64 arg of Some i \<Rightarrow> (assign i s, None) | None \<Rightarrow> (s, Some ''integer''))"

fun parseArgs_loop ::
  "nat \<Rightarrow> ExprNode list \<Rightarrow> 's dest list \<Rightarrow> 's \<Rightarrow> 's \<times> config_error option" where
  "parseArgs_loop i (a # as) (p # ps) s =
     (case parseArg a p s of
        (s', Some e) \<Rightarrow> (s', Some (ParseParameter (i + 1) e))
      | (s', None) \<Rightarrow> parseArgs_loop (i + 1) as ps s')"
| "parseArgs_loop i _ _ s = (s, None)"

definition parseArgs :: "ExprNode list \<Rightarrow> 's dest list \<Rightarrow> 's \<Rightarrow> 's \<times> config_error option" where
  "parseArgs args dest s =
     (if length args \<noteq> length dest then (s, Some (ExpectedCount (length dest) (length args)))
      else parseArgs_loop 0 args dest s)"

definition parseArgsUpTo :: "ExprNode list \<Rightarrow> 's dest list \<Rightarrow> 's \<Rightarrow> 's \<times> config_error option" where
  "parseArgsUpTo args dest s =
     parseArgs (if length args > length dest then take (length dest) args else args) dest s"

text \<open>The seven \<open>seen\<close> flags of \<open>handleBackoff\<close>.\<close>

record seen =
  seenFactor :: bool
  seenGrow :: bool
  seenMin :: bool
  seenMax :: bool
  seenMaxExp :: bool
  seenExpM :: bool
  seenExpScale :: bool

definition seen0 :: seen where
  "seen0 = \<lparr> seenFactor = False, seenGrow = False, seenMin = False, seenMax = False,
             seenMaxExp = False, seenExpM = False, seenExpScale = False \<rparr>"

text \<open>
  One case condition of the switch, \<open>!seen && parseArgsUpTo(args, Keyword(k), &b.F) == nil\<close>:
  whether it holds, and \<open>b\<close> afterwards.
\<close>

definition switch_case ::
  "bool \<Rightarrow> ExprNode list \<Rightarrow> backoff dest list \<Rightarrow> backoff \<Rightarrow> bool \<times> backoff" where
  "switch_case sn args dest b =
     (if sn then (False, b)
      else case parseArgsUpTo args dest b of
             (b', None) \<Rightarrow> (True, b')
           | (b', Some e) \<Rightarrow> (False, b'))"

text \<open>The loop \<open>for len(args) > 0\<close> of \<open>handleBackoff\<close>, over the local \<open>b\<close>.\<close>

function handleBackoff_loop :: "ExprNode list \<Rightarrow> seen \<Rightarrow> backoff \<Rightarrow> config_error + backoff" where
  "handleBackoff_loop args sn b =
     (if length args > 0 then
        (case switch_case (seenFactor sn) args
                [Keyword ''factor'', Float64Ptr (\<lambda>v b. b\<lparr>Factor := v\<rparr>)] b of
           (True, b) \<Rightarrow> handleBackoff_loop (drop 2 args) (sn\<lparr>seenFactor := True\<rparr>) b
         | (False, b) \<Rightarrow>
        (case switch_case (seenGrow sn) args
                [Keyword ''grow-by'', DurationPtr (\<lambda>v b. b\<lparr>Grow := v\<rparr>)] b of
           (True, b) \<Rightarrow> handleBackoff_loop (drop 2 args) (sn\<lparr>seenGrow := True\<rparr>) b
         | (False, b) \<Rightarrow>
        (case switch_case (seenMin sn) args
                [Keyword ''min'', DurationPtr (\<lambda>v b. b\<lparr>Min_dur := v\<rparr>)] b of
           (True, b) \<Rightarrow> handleBackoff_loop (drop 2 args) (sn\<lparr>seenMin := True\<rparr>) b
         | (False, b) \<Rightarrow>
        (case switch_case (seenMax sn) args
                [Keyword ''max'', DurationPtr (\<lambda>v b. b\<lparr>Max_dur := v\<rparr>)] b of
           (True, b) \<Rightarrow> handleBackoff_loop (drop 2 args) (sn\<lparr>seenMax := True\<rparr>) b
         | (False, b) \<Rightarrow>
        (case switch_case (seenMaxExp sn) args
                [Keyword ''exp-max'', IntPtr (\<lambda>v b. b\<lparr>MaxExp := v\<rparr>)] b of
           (True, b) \<Rightarrow> handleBackoff_loop (drop 2 args) (sn\<lparr>seenMaxExp := True\<rparr>) b
         | (False, b) \<Rightarrow>
        (case switch_case (seenExpM sn) args
                [Keyword ''exp-m'', Float64Ptr (\<lambda>v b. b\<lparr>ExpM := v\<rparr>)] b of
           (True, b) \<Rightarrow> handleBackoff_loop (drop 2 args) (sn\<lparr>seenExpM := True\<rparr>) b
         | (False, b) \<Rightarrow>
        (case switch_case (seenExpScale sn) args
                [Keyword ''exp-y'', Float64Ptr (\<lambda>v b. b\<lparr>ExpScale := v\<rparr>)] b of
           (True, b) \<Rightarrow> handleBackoff_loop (drop 2 args) (sn\<lparr>seenExpScale := True\<rparr>) b
         | (False, b) \<Rightarrow> Inl InvalidArgument)))))))
      else Inr b)"
  by pat_completeness auto
termination
  by (relation "measure (\<lambda>(args, sn, b). length args)") auto

text \<open>
  \<open>func (p *PortConfig) handleBackoff(args []codf.ExprNode) error\<close>: the port
  configuration afterwards and the error. The interval is parsed into
  \<open>p.Backoff.Interval\<close>; the keywords are parsed into the local \<open>b\<close>, which starts as
  \<open>DefaultBackoff\<close> and is assigned to \<open>p.Backoff\<close> at the end.
\<close>

definition handleBackoff :: "ExprNode list \<Rightarrow> PortConfig \<Rightarrow> PortConfig \<times> config_error option" where
  "handleBackoff args p =
     (if length args = 0 then (p, Some ExpectedOneOrMore)
      else
        case parseArgsUpTo args
               [DurationPtr (\<lambda>v p. p\<lparr>Backoff := (Backoff p)\<lparr>Interval := v\<rparr>\<rparr>)] p of
          (p, Some err) \<Rightarrow> (p, Some err)
        | (p, None) \<Rightarrow>
            let args = drop 1 args;
                b = DefaultBackoff
            in case handleBackoff_loop args seen0 b of
                 Inl err \<Rightarrow> (p, Some err)
               | Inr b \<Rightarrow>
                   (case Check b of
                      Some err \<Rightarrow> (p, Some (CheckError err))
                    | None \<Rightarrow> (p\<lparr>Backoff := b\<rparr>, None)))"

section \<open>The gateway and its copy of the configuration\<close>

text \<open>
  \<open>newGateway\<close> receives a pointer to a \<open>PortConfig\<close> whose \<open>Listen\<close> slice holds
  pointers to \<open>Addr\<close> values and whose \<open>Forward\<close> field points to a URL. What is shared
  after the copy decides the claim, so the objects live in a heap: a list of objects in
  which an address is an index, and allocation appends.
\<close>

datatype obj =
    OConfig PortConfig
  | OArray "nat option list"
  | OAddr Addr
  | OURL URL

type_synonym heap = "obj list"

definition load :: "heap \<Rightarrow> nat \<Rightarrow> obj option" where
  "load h a = (if a < length h then Some (h ! a) else None)"

definition alloc :: "heap \<Rightarrow> obj \<Rightarrow> nat \<times> heap" where
  "alloc h x = (length h, h @ [x])"

definition store :: "heap \<Rightarrow> nat \<Rightarrow> obj \<Rightarrow> heap" where
  "store h a x = h[a := x]"

datatype gw_error = AddrIsNil | NilDereference

record porthole =
  orig :: nat
  rdtimeout :: int

text \<open>
  \<open>newPorthole\<close>: a nil address is an error; otherwise the \<open>Addr\<close> is copied into a
  fresh object. (The proxy it also stores belongs to an external library and is left
  out.)
\<close>

definition newPorthole :: "nat option \<Rightarrow> int \<Rightarrow> heap \<Rightarrow> gw_error + porthole \<times> heap" where
  "newPorthole addr rdt h =
     (case addr of
        None \<Rightarrow> Inl AddrIsNil
      | Some a \<Rightarrow>
          (case load h a of
             Some (OAddr v) \<Rightarrow>
               (let (dup, h') = alloc h (OAddr v)
                in Inr (\<lparr> orig = dup, rdtimeout = rdt \<rparr>, h'))
           | _ \<Rightarrow> Inl NilDereference))"

text \<open>The elements of a slice, read from its backing array.\<close>

definition elems :: "heap \<Rightarrow> slice \<Rightarrow> (nat option list) option" where
  "elems h sl =
     (case base sl of
        None \<Rightarrow> (if slen sl = 0 then Some [] else None)
      | Some a \<Rightarrow>
          (case load h a of
             Some (OArray xs) \<Rightarrow> (if slen sl \<le> length xs then Some (take (slen sl) xs) else None)
           | _ \<Rightarrow> None))"

record gateway =
  g_cfg :: nat
  g_in :: "porthole list"

text \<open>The loop over \<open>cfg.Listen\<close> in \<open>newGateway\<close>, stopping at the first error.\<close>

fun newGateway_holes ::
  "nat option list \<Rightarrow> int \<Rightarrow> porthole list \<Rightarrow> heap \<Rightarrow> gw_error + porthole list \<times> heap" where
  "newGateway_holes [] rdt holes h = Inr (holes, h)"
| "newGateway_holes (addr # rest) rdt holes h =
     (case newPorthole addr rdt h of
        Inl err \<Rightarrow> Inl err
      | Inr (hole, h') \<Rightarrow> newGateway_holes rest rdt (holes @ [hole]) h')"

text \<open>
  \<open>newGateway\<close>: the portholes, then \<open>dup := new(PortConfig); *dup = *cfg\<close>, an
  assignment of the struct, which copies the slice header and the \<open>Forward\<close> pointer,
  not what they point to. The fields of the gateway are \<open>cfg\<close> and \<open>in\<close> in the source.
\<close>

definition newGateway :: "nat \<Rightarrow> heap \<Rightarrow> gw_error + gateway \<times> heap" where
  "newGateway cfg h =
     (case load h cfg of
        Some (OConfig c) \<Rightarrow>
          (case elems h (Listen c) of
             None \<Rightarrow> Inl NilDereference
           | Some addrs \<Rightarrow>
               (case newGateway_holes addrs (ReadTimeout c) [] h of
                  Inl err \<Rightarrow> Inl err
                | Inr (holes, h') \<Rightarrow>
                    (case load h' cfg of
                       Some (OConfig c') \<Rightarrow>
                         (let (dup, h'') = alloc h' (OConfig c')
                          in Inr (\<lparr> g_cfg = dup, g_in = holes \<rparr>, h''))
                     | _ \<Rightarrow> Inl NilDereference)))
      | _ \<Rightarrow> Inl NilDereference)"

text \<open>
  How \<open>fmt.Sprint\<close> prints one \<open>*Addr\<close> of the slice (through its \<open>String\<close> method;
  a nil pointer prints as \<open><nil>\<close>) and the slice itself: the elements in brackets,
  separated by spaces.
\<close>

definition Sprint_addr :: "heap \<Rightarrow> nat option \<Rightarrow> string option" where
  "Sprint_addr h p =
     (case p of
        None \<Rightarrow> Some ''<nil>''
      | Some a \<Rightarrow> (case load h a of Some (OAddr v) \<Rightarrow> Some (Addr_String v) | _ \<Rightarrow> None))"

fun join_sp :: "string list \<Rightarrow> string" where
  "join_sp [] = []"
| "join_sp [x] = x"
| "join_sp (x # y # ys) = x @ '' '' @ join_sp (y # ys)"

definition Sprint_addrs :: "heap \<Rightarrow> nat option list \<Rightarrow> string option" where
  "Sprint_addrs h ps =
     (if \<forall>p \<in> set ps. Sprint_addr h p \<noteq> None
      then Some (''['' @ join_sp (map (\<lambda>p. the (Sprint_addr h p)) ps) @ '']'')
      else None)"

text \<open>
  \<open>func (g *gateway) String() string\<close>. The URL is copied, its user is removed and its
  query is filtered; the library's query filter (\<open>Query\<close>, \<open>Del\<close> of \<open>u\<close> and \<open>p\<close>,
  \<open>Encode\<close>) and its URL formatter are the parameters \<open>strip\<close> and \<open>fmt_url\<close>.
\<close>

definition gateway_String ::
  "(string \<Rightarrow> string) \<Rightarrow> (URL \<Rightarrow> string) \<Rightarrow> heap \<Rightarrow> gateway \<Rightarrow> gw_error + string" where
  "gateway_String strip fmt_url h g =
     (case load h (g_cfg g) of
        Some (OConfig c) \<Rightarrow>
          (case Forward c of
             None \<Rightarrow> Inl NilDereference
           | Some f \<Rightarrow>
               (case load h f of
                  Some (OURL u0) \<Rightarrow>
                    (let u = u0\<lparr>User := None\<rparr>;
                         u = u\<lparr>RawQuery := strip (RawQuery u)\<rparr>
                     in case elems h (Listen c) of
                          None \<Rightarrow> Inl NilDereference
                        | Some ps \<Rightarrow>
                            (case Sprint_addrs h ps of
                               None \<Rightarrow> Inl NilDereference
                             | Some l \<Rightarrow> Inr (l @ ''->'' @ fmt_url u)))
                | _ \<Rightarrow> Inl NilDereference))
      | _ \<Rightarrow> Inl NilDereference)"

text \<open>
  Mutations of the source configuration after the gateway was built: an assignment to
  the struct \<open>*cfg\<close> (any of its fields), and the two writes through pointers that the
  claim names, \<open>cfg.Listen[i].Network = v\<close> and \<open>cfg.Forward.Host = v\<close>. \<open>None\<close> is
  a nil dereference or an index out of range.
\<close>

definition assign_cfg :: "nat \<Rightarrow> PortConfig \<Rightarrow> heap \<Rightarrow> heap option" where
  "assign_cfg cfg c' h =
     (case load h cfg of Some (OConfig c) \<Rightarrow> Some (store h cfg (OConfig c')) | _ \<Rightarrow> None)"

definition set_Listen_Network :: "nat \<Rightarrow> nat \<Rightarrow> string \<Rightarrow> heap \<Rightarrow> heap option" where
  "set_Listen_Network cfg i v h =
     (case load h cfg of
        Some (OConfig c) \<Rightarrow>
          (case elems h (Listen c) of
             Some ps \<Rightarrow>
               (if i < length ps then
                  (case ps ! i of
                     Some a \<Rightarrow>
                       (case load h a of
                          Some (OAddr v0) \<Rightarrow> Some (store h a (OAddr (v0\<lparr>Network := v\<rparr>)))
                        | _ \<Rightarrow> None)
                   | None \<Rightarrow> None)
                else None)
           | None \<Rightarrow> None)
      | _ \<Rightarrow> None)"

definition set_Forward_Host :: "nat \<Rightarrow> string \<Rightarrow> heap \<Rightarrow> heap option" where
  "set_Forward_Host cfg v h =
     (case load h cfg of
        Some (OConfig c) \<Rightarrow>
          (case Forward c of
             Some f \<Rightarrow>
               (case load h f of
                  Some (OURL u) \<Rightarrow> Some (store h f (OURL (u\<lparr>Host := v\<rparr>)))
                | _ \<Rightarrow> None)
           | None \<Rightarrow> None)
      | _ \<Rightarrow> None)"

text \<open>
  A heap for the concrete evaluations: the configuration at address 0 listens on
  \<open>udp(:9000)\<close> and forwards to \<open>http://example.com/write\<close>. For a URL without user,
  opaque part, query, fragment and escapes, the filtered query is empty and the
  formatter writes scheme, host and path.
\<close>

definition example_heap :: heap where
  "example_heap =
     [ OConfig (NewPortConfig\<lparr> Listen := \<lparr> base = Some 1, slen = 1 \<rparr>, Forward := Some 3 \<rparr>),
       OArray [Some 2],
       OAddr \<lparr> Network = ''udp'', Addr = '':9000'' \<rparr>,
       OURL (URL0\<lparr> Scheme := ''http'', Host := ''example.com'', Path := ''/write'' \<rparr>) ]"

definition plain_strip :: "string \<Rightarrow> string" where
  "plain_strip q = q"

definition plain_fmt :: "URL \<Rightarrow> string" where
  "plain_fmt u = Scheme u @ ''://'' @ Host u @ Path u"

text \<open>The gateway built from this heap, and the heap afterwards.\<close>

definition example_gateway :: gateway where
  "example_gateway = \<lparr> g_cfg = 5, g_in = [\<lparr> orig = 4, rdtimeout = 10 * Second \<rparr>] \<rparr>"

definition example_heap1 :: heap where
  "example_heap1 = example_heap @
     [ OAddr \<lparr> Network = ''udp'', Addr = '':9000'' \<rparr>,
       OConfig (NewPortConfig\<lparr> Listen := \<lparr> base = Some 1, slen = 1 \<rparr>, Forward := Some 3 \<rparr>) ]"

section \<open>The porthole\<close>

text \<open>
  The error values that the porthole tells apart: the two context errors (compared by
  identity), a \<open>*net.OpError\<close> with its \<open>Op\<close> and what its \<open>Temporary\<close> method says,
  another implementation of \<open>net.Error\<close>, and any other error.
\<close>

datatype go_error =
    Canceled
  | DeadlineExceeded
  | OpError string bool
  | NetError bool
  | OtherError

text \<open>The type switch \<open>case net.Error\<close>: the value of \<open>Temporary()\<close> when the case applies.\<close>

fun net_Temporary :: "go_error \<Rightarrow> bool option" where
  "net_Temporary (OpError op t) = Some t"
| "net_Temporary (NetError t) = Some t"
| "net_Temporary _ = None"

type_synonym byte = "8 word"

definition memclr :: "byte list \<Rightarrow> byte list" where
  "memclr block = map (\<lambda>_. 0) block"

text \<open>
  One pass of the \<open>for\<close> loop of \<open>listen\<close> is driven by what the environment does:
  the datagram that \<open>read\<close> receives (empty when \<open>read\<close> fails or is cancelled), the
  error of \<open>read\<close>, and the error of \<open>p.proxy.Write\<close> should it be called. \<open>read\<close>
  stores at most \<open>len(buf)\<close> bytes at the start of the buffer and returns their
  number \<open>n\<close>. The goroutines behind \<open>read\<close> are not modelled: a read is one step.
\<close>

record read_event =
  datagram :: "byte list"
  read_err :: "go_error option"
  write_err :: "go_error option"

text \<open>
  The three kinds of \<open>return\<close> statement inside the loop: on a context error, after a
  failed read, and after a failed write to the proxy.
\<close>

datatype exit_path = OnCancel | OnReadError | OnWriteError

datatype loop_exit = Exited exit_path go_error | Waiting


text \<open>
  One pass of the loop, from \<open>n, _, err = read(buf)\<close> on. It yields \<open>n\<close> with the
  buffer as \<open>read\<close> left it, the \<open>return\<close> taken (\<open>None\<close> when the loop goes on to
  the next \<open>read\<close>), and the buffer at the end of the pass. \<open>block := buf[:n]\<close> shares
  the buffer's memory, so clearing \<open>block\<close> clears the first \<open>n\<close> bytes of the buffer.
\<close>

definition listen_pass ::
  "read_event \<Rightarrow> byte list \<Rightarrow> (nat \<times> byte list) \<times> (exit_path \<times> go_error) option \<times> byte list" where
  "listen_pass ev buf0 =
     (let n = min (length (datagram ev)) (length buf0);
          buf = take n (datagram ev) @ drop n buf0;
          err = read_err ev
      in if err = Some Canceled \<or> err = Some DeadlineExceeded then
           ((n, buf), Some (OnCancel, the err), buf)
         else
           (case err of
              None \<Rightarrow>
                (case write_err ev of
                   Some werr \<Rightarrow> ((n, buf), Some (OnWriteError, werr), buf)
                 | None \<Rightarrow> ((n, buf), None, memclr (take n buf) @ drop n buf))
            | Some e \<Rightarrow>
                (case net_Temporary e of
                   Some temporary \<Rightarrow>
                     (let buf' = memclr (take n buf) @ drop n buf
                      in if \<not> temporary then ((n, buf), Some (OnReadError, e), buf')
                         else ((n, buf), None, buf'))
                 | None \<Rightarrow>
                     ((n, buf), Some (OnReadError, e), memclr (take n buf) @ drop n buf))))"

text \<open>
  The \<open>for\<close> loop of \<open>listen\<close>, from the buffer it starts with. It yields how the
  loop ends (\<open>Waiting\<close> when the events are used up, that is, the loop waits in
  \<open>read\<close>), the buffer at that moment, and, for every \<open>read\<close> that returned, the
  number \<open>n\<close> with the buffer as \<open>read\<close> left it.
\<close>

fun listen_loop ::
  "read_event list \<Rightarrow> byte list \<Rightarrow> loop_exit \<times> byte list \<times> (nat \<times> byte list) list" where
  "listen_loop [] buf = (Waiting, buf, [])"
| "listen_loop (ev # evs) buf =
     (case listen_pass ev buf of
        (snap, Some (path, e), buf') \<Rightarrow> (Exited path e, buf', [snap])
      | (snap, None, buf') \<Rightarrow>
          (case listen_loop evs buf' of (r, b, t) \<Rightarrow> (r, b, snap # t)))"

datatype loop_result = Returned go_error | Blocked

text \<open>
  \<open>func (p *porthole) listen(ctx context.Context) (err error)\<close>: the context may be
  done already, the address may not resolve, the socket may not bind; otherwise the loop
  runs on a zeroed buffer of 65507 bytes. The statements after the loop are unreachable.
\<close>

datatype bind =
    ContextDone go_error
  | ResolveFails go_error
  | ListenFails go_error
  | Bound "read_event list"

definition msg0 :: "byte list" where
  "msg0 = replicate 65507 0"

definition listen :: "bind \<Rightarrow> loop_result" where
  "listen b =
     (case b of
        ContextDone e \<Rightarrow> Returned e
      | ResolveFails e \<Rightarrow> Returned e
      | ListenFails e \<Rightarrow> Returned e
      | Bound evs \<Rightarrow>
          (case fst (listen_loop evs msg0) of
             Exited path e \<Rightarrow> Returned e
           | Waiting \<Rightarrow> Blocked))"





text \<open>
  One pass of the loop of \<open>Listen\<close> is driven by the bind attempt, by whether the bind
  outlived a minute (\<open>time.Since(t) > time.Minute\<close>), and by which case of the final
  \<open>select\<close> fires: the timer (\<open>None\<close>) or \<open>ctx.Done()\<close> with the context's error.
\<close>

record attempt =
  bind_of :: bind
  survived :: bool
  wait_done :: "go_error option"

definition retries :: int where
  "retries = 10"

text \<open>
  What \<open>Listen\<close> comes to, with the number of calls of \<open>listen\<close> it made: it returned
  an error (or nil), it panicked in \<open>backoff\<close>, or it is still running when the
  attempts are used up.
\<close>

datatype Listen_result =
    Done "go_error option" nat
  | Panicked panic nat
  | Running nat

text \<open>
  \<open>func (p *porthole) Listen(ctx context.Context) (err error)\<close>, as the loop
  \<open>for i := 1; i <= retries; i++\<close> with the named result \<open>err\<close> and the count \<open>k\<close> of
  binds so far. The branch for a \<open>*net.OpError\<close> with \<open>Op == "listen"\<close> only logs;
  the test \<open>i == retries\<close> is its \<open>else\<close> branch. \<open>listen\<close> never returns nil, so
  the test \<open>err == nil\<close> has no case here.
\<close>

fun Listen_loop ::
  "rand_source \<Rightarrow> int \<Rightarrow> go_error option \<Rightarrow> nat \<Rightarrow> attempt list \<Rightarrow> Listen_result" where
  "Listen_loop rnd i err k [] = (if i \<le> retries then Running k else Done err k)"
| "Listen_loop rnd i err k (a # as) =
     (if i \<le> retries then
        (case listen (bind_of a) of
           Blocked \<Rightarrow> Running (k + 1)
         | Returned e \<Rightarrow>
             if e = Canceled \<or> e = DeadlineExceeded then Done (Some e) (k + 1)
             else if (case e of OpError op t \<Rightarrow> op \<noteq> ''listen'' | _ \<Rightarrow> True) \<and> i = retries
               then Done (Some e) (k + 1)
             else
               (let i = (if survived a then 1 else i)
                in case backoff DefaultBackoff i retries rnd of
                     Inl p \<Rightarrow> Panicked p (k + 1)
                   | Inr d \<Rightarrow>
                       (let wait = wrap64 (wrap64 (Second * 2 * i) + d)
                        in case wait_done a of
                             Some cerr \<Rightarrow> Done (Some cerr) (k + 1)
                           | None \<Rightarrow> Listen_loop rnd (i + 1) (Some e) (k + 1) as)))
      else Done err k)"

definition Listen :: "rand_source \<Rightarrow> attempt list \<Rightarrow> Listen_result" where
  "Listen rnd as = Listen_loop rnd 1 None 0 as"

text \<open>A bind attempt that fails with the listener-creation error, after which the timer fires.\<close>

definition bind_conflict :: attempt where
  "bind_conflict =
     \<lparr> bind_of = ListenFails (OpError ''listen'' False), survived = False, wait_done = None \<rparr>"

section \<open>The supervisor's shutdown\<close>

text \<open>
  \<open>main\<close> creates the context of the gateways with its \<open>cancel\<close>, and the one-shot
  signal \<open>SHUTDOWN\<close> with its \<open>die\<close>. Of the running program the model keeps a
  logical clock in nanoseconds and the times at which \<open>SHUTDOWN\<close> was closed and the
  context was cancelled; both \<open>die\<close> and \<open>cancel\<close> act once.
\<close>

record supervisor =
  now :: int
  shutdown_at :: "int option"
  cancelled_at :: "int option"

definition supervisor0 :: supervisor where
  "supervisor0 = \<lparr> now = 0, shutdown_at = None, cancelled_at = None \<rparr>"

definition die :: "supervisor \<Rightarrow> supervisor" where
  "die s = (if shutdown_at s = None then s\<lparr>shutdown_at := Some (now s)\<rparr> else s)"

definition cancel :: "supervisor \<Rightarrow> supervisor" where
  "cancel s = (if cancelled_at s = None then s\<lparr>cancelled_at := Some (now s)\<rparr> else s)"

text \<open>
  The steps of the goroutines of \<open>main\<close>:
  \<^item> time passes;
  \<^item> the signal goroutine receives an interrupt and runs \<open>die(); cancel()\<close>;
  \<^item> the goroutine of \<open>SHUTDOWN.DelayFunc(time.Second, cancel)\<close> has waited for
    \<open>SHUTDOWN\<close>, slept a second and calls \<open>cancel\<close> (possible from one second after
    the shutdown on);
  \<^item> a \<open>runGateway\<close> returns and its deferred \<open>cancel()\<close> runs;
  \<^item> the watching goroutine sees \<open>ctx.Done()\<close> and calls \<open>die()\<close> (possible once
    the context is cancelled).
  A step that is not possible in a state yields \<open>None\<close>.
\<close>

datatype sup_event =
    Advance int
  | Interrupt
  | DelayFunc_fires
  | Gateway_returns
  | Watcher_fires

fun sup_step :: "sup_event \<Rightarrow> supervisor \<Rightarrow> supervisor option" where
  "sup_step (Advance d) s = (if 0 \<le> d then Some (s\<lparr>now := now s + d\<rparr>) else None)"
| "sup_step Interrupt s = Some (cancel (die s))"
| "sup_step DelayFunc_fires s =
     (case shutdown_at s of
        Some t \<Rightarrow> (if t + Second \<le> now s then Some (cancel s) else None)
      | None \<Rightarrow> None)"
| "sup_step Gateway_returns s = Some (cancel s)"
| "sup_step Watcher_fires s = (if cancelled_at s \<noteq> None then Some (die s) else None)"

fun sup_run :: "sup_event list \<Rightarrow> supervisor \<Rightarrow> supervisor option" where
  "sup_run [] s = Some s"
| "sup_run (e # es) s = (case sup_step e s of None \<Rightarrow> None | Some s' \<Rightarrow> sup_run es s')"

section \<open>Properties of the backoff function\<close>

lemma wrap64_id: "- (2 ^ 63) \<le> x \<Longrightarrow> x < 2 ^ 63 \<Longrightarrow> wrap64 x = x"
  by (simp add: wrap64_def)

lemma eff_retry_range:
  "1 \<le> retry \<Longrightarrow> 1 \<le> eff_retry b retry \<and> eff_retry b retry \<le> 60"
  by (auto simp: eff_retry_def Let_def)

lemma pow2_le_60: "n \<le> 60 \<Longrightarrow> (2::int) ^ n \<le> 2 ^ 60"
  by (rule power_increasing) simp_all

text \<open>
  The bound handed to the random source, for any \<open>retry \<ge> 1\<close>: the shift overwrites
  \<open>max\<close> before the addition reads it, so the unshifted value is not a summand.
\<close>

lemma randfactor_max_eq:
  assumes "1 \<le> retry"
  shows "randfactor_max b retry =
           (128 + 2 ^ nat (eff_retry b retry)) * 2 ^ nat (eff_retry b retry - 1) + 128"
proof -
  let ?r = "eff_retry b retry"
  have r: "1 \<le> ?r" "?r \<le> 60" using eff_retry_range [OF assms] by simp_all
  have p: "(2::int) ^ nat ?r \<le> 2 ^ 60" using r by (intro pow2_le_60) simp
  have p0: "(0::int) < 2 ^ nat ?r" by simp
  have w: "0 < x \<Longrightarrow> x \<le> 2 ^ 60 \<Longrightarrow> wrap64 x = x \<and> wrap64 (128 + x) = 128 + x" for x :: int
    by (simp add: wrap64_id)
  have w1: "wrap64 (2 ^ nat ?r) = 2 ^ nat ?r"
    and w2: "wrap64 (128 + 2 ^ nat ?r) = 128 + 2 ^ nat ?r"
    using w [OF p0 p] by blast+
  show ?thesis
    by (simp add: randfactor_max_def Let_def big_NewInt_def big_Lsh_def big_Add_def
        bigstore0_def w1 w2)
qed

lemma randfactor_max_pos: "1 \<le> retry \<Longrightarrow> 128 < randfactor_max b retry"
proof -
  assume a: "1 \<le> retry"
  have "(0::int) < (128 + 2 ^ nat (eff_retry b retry)) * 2 ^ nat (eff_retry b retry - 1)"
    by (intro mult_pos_pos) (simp_all add: add_pos_pos)
  then show ?thesis by (simp add: randfactor_max_eq [OF a])
qed

text \<open>
  C1, as the source computes it. For every \<open>retry\<close> from 1 up to the effective
  \<open>MaxExp\<close> (\<open>MaxExp\<close> when it lies in 1..60, else 60), \<open>randfactor\<close> samples its
  random integer \<open>n\<close> uniformly from \<open>[0, M')\<close> with \<open>M' = (M << (retry-1)) + 128\<close>
  and \<open>M = 128 + 2^retry\<close>:
  \<^item> the bound it computes is \<open>M'\<close>, and it consults the random source at this bound
    and at no other;
  \<^item> the equally likely values of a draw with this bound are the integers of
    \<open>[0, M')\<close>, each once, so a random source that answers as \<open>rand.Int\<close> does
    returns \<open>0 \<le> n < M'\<close>;
  \<^item> the draw is used: when it fails, \<open>randfactor\<close> panics, and when it returns \<open>n\<close>,
    the result is \<open>n / (M'/4 + ExpM)\<close>, times \<open>ExpScale\<close> when that is positive (a
    division of zero by zero panics, an infinite result is replaced by 16000000).
\<close>

theorem randfactor_bound:
  assumes "1 \<le> retry"
    and "retry \<le> (if 1 \<le> MaxExp b \<and> MaxExp b \<le> 60 then MaxExp b else 60)"
  shows "randfactor_max b retry = (128 + 2 ^ nat retry) * 2 ^ nat (retry - 1) + 128
       \<and> randfactor b retry rnd =
           randfactor b retry (\<lambda>_. rnd ((128 + 2 ^ nat retry) * 2 ^ nat (retry - 1) + 128))
       \<and> distinct (rand_Int_outcomes (randfactor_max b retry))
       \<and> set (rand_Int_outcomes (randfactor_max b retry)) =
           {0 ..< (128 + 2 ^ nat retry) * 2 ^ nat (retry - 1) + 128}
       \<and> (rand_Int_returns rnd (randfactor_max b retry) \<and>
            rnd (randfactor_max b retry) = Rand n \<longrightarrow>
            0 \<le> n \<and> n < (128 + 2 ^ nat retry) * 2 ^ nat (retry - 1) + 128)
       \<and> (rnd ((128 + 2 ^ nat retry) * 2 ^ nat (retry - 1) + 128) = RandErr \<longrightarrow>
            randfactor b retry rnd = Inl RandPanic)
       \<and> (rnd ((128 + 2 ^ nat retry) * 2 ^ nat (retry - 1) + 128) = Rand n \<longrightarrow>
            randfactor b retry rnd =
              (let tf = real_of_int ((128 + 2 ^ nat retry) * 2 ^ nat (retry - 1) + 128) / 4
                          + ExpM b
               in if tf = 0 then (if n = 0 then Inl ErrNaN else Inr 16000000)
                  else
                    let f = real_of_int n / tf;
                        f = (if ExpScale b > 0 then f * ExpScale b else f)
                    in if \<bar>f\<bar> > MaxFloat64 then Inr 16000000 else Inr f))"
proof -
  let ?M = "(128 + 2 ^ nat retry) * 2 ^ nat (retry - 1) + 128 :: int"
  have e: "eff_retry b retry = retry"
    using assms by (auto simp: eff_retry_def Let_def split: if_splits)
  have m: "randfactor_max b retry = ?M"
    using randfactor_max_eq [OF assms(1), of b] by (simp add: e)
  have r: "\<not> retry < 1" using assms(1) by simp
  have c2: "randfactor b retry rnd = randfactor b retry (\<lambda>_. rnd ?M)"
    by (simp add: m randfactor_def Let_def)
  have c3: "distinct (rand_Int_outcomes (randfactor_max b retry))"
    by (simp add: rand_Int_outcomes_def)
  have c4: "set (rand_Int_outcomes (randfactor_max b retry)) = {0 ..< ?M}"
    unfolding m by (auto simp: rand_Int_outcomes_def)
  have c5: "rand_Int_returns rnd (randfactor_max b retry) \<and>
            rnd (randfactor_max b retry) = Rand n \<longrightarrow> 0 \<le> n \<and> n < ?M"
    unfolding m by (auto simp: rand_Int_returns_def rand_Int_outcomes_def)
  have c6: "rnd ?M = RandErr \<longrightarrow> randfactor b retry rnd = Inl RandPanic"
    using r by (simp add: m randfactor_def Let_def)
  have c7: "rnd ?M = Rand n \<longrightarrow>
            randfactor b retry rnd =
              (let tf = real_of_int ?M / 4 + ExpM b
               in if tf = 0 then (if n = 0 then Inl ErrNaN else Inr 16000000)
                  else
                    let f = real_of_int n / tf;
                        f = (if ExpScale b > 0 then f * ExpScale b else f)
                    in if \<bar>f\<bar> > MaxFloat64 then Inr 16000000 else Inr f)"
    using r by (simp add: m randfactor_def Let_def)
  from m c2 c3 c4 c5 c6 c7 show ?thesis by (intro conjI)
qed

text \<open>
  At the default parameters and \<open>retry = 5\<close> the bound is 2688. A source that returns
  the largest value allowed, 2687, gives \<open>2687 / (2688/4 + 1) * 1.5\<close>; a source that
  fails gives the panic.
\<close>

theorem randfactor_bound_witness:
  "(1::int) \<le> 5
   \<and> 5 \<le> (if 1 \<le> MaxExp DefaultBackoff \<and> MaxExp DefaultBackoff \<le> 60
            then MaxExp DefaultBackoff else 60)
   \<and> randfactor_max DefaultBackoff 5 = 2688
   \<and> randfactor DefaultBackoff 5 (\<lambda>m. Rand (m - 1)) =
       randfactor DefaultBackoff 5 (\<lambda>_. Rand 2687)
   \<and> rand_Int_returns (\<lambda>m. Rand (m - 1)) 2688
   \<and> (0::int) \<le> 2687 \<and> (2687::int) < 2688
   \<and> randfactor DefaultBackoff 5 (\<lambda>m. Rand (m - 1)) = Inr (8061 / 1346)
   \<and> randfactor DefaultBackoff 5 (\<lambda>_. RandErr) = Inl RandPanic"
proof -
  have h1: "(1::int) \<le> 5" by simp
  have h2: "5 \<le> (if 1 \<le> MaxExp DefaultBackoff \<and> MaxExp DefaultBackoff \<le> 60
                   then MaxExp DefaultBackoff else 60)"
    by (simp add: DefaultBackoff_def)
  note A = randfactor_bound [OF h1 h2, of "\<lambda>m. Rand (m - 1)" 2687]
  note B = randfactor_bound [OF h1 h2, of "\<lambda>_. RandErr" 0]
  have m: "randfactor_max DefaultBackoff 5 = 2688"
    using A [THEN conjunct1] by simp
  have e: "randfactor DefaultBackoff 5 (\<lambda>m. Rand (m - 1)) =
             randfactor DefaultBackoff 5 (\<lambda>_. Rand 2687)"
    using A [THEN conjunct2, THEN conjunct1] by simp
  have c: "rand_Int_returns (\<lambda>m. Rand (m - 1)) 2688"
    by (simp add: rand_Int_returns_def rand_Int_outcomes_def)
  have v: "randfactor DefaultBackoff 5 (\<lambda>m. Rand (m - 1)) = Inr (8061 / 1346)"
    using A [THEN conjunct2, THEN conjunct2, THEN conjunct2, THEN conjunct2, THEN conjunct2,
        THEN conjunct2]
    by (simp add: DefaultBackoff_def MaxFloat64_def)
  have p: "randfactor DefaultBackoff 5 (\<lambda>_. RandErr) = Inl RandPanic"
    using B [THEN conjunct2, THEN conjunct2, THEN conjunct2, THEN conjunct2, THEN conjunct2,
        THEN conjunct1]
    by simp
  from h1 h2 m e c v p show ?thesis by simp
qed

text \<open>
  C1 as the specification words it, \<open>M + (M << (retry-1)) + 128\<close>, fails already at
  \<open>retry = 1\<close> with the default parameters: the source's bound is 258, the recipe's 388,
  and 300, which the recipe's range contains, is not a value of the source's draw.
\<close>

theorem randfactor_bound_counterexample:
  "(1::int) \<le> 1 \<and> 1 \<le> MaxExp DefaultBackoff \<and> MaxExp DefaultBackoff \<le> 60
   \<and> randfactor_max DefaultBackoff 1 = 258
   \<and> (128 + 2 ^ 1) + (128 + 2 ^ 1) * 2 ^ (1 - 1) + 128 = (388::int)
   \<and> 300 \<notin> set (rand_Int_outcomes (randfactor_max DefaultBackoff 1))"
  by (simp add: randfactor_max_def eff_retry_def DefaultBackoff_def big_NewInt_def big_Lsh_def
      big_Add_def bigstore0_def wrap64_def Let_def rand_Int_outcomes_def)


lemma randfactor_total:
  assumes "1 \<le> retry" and "0 \<le> ExpM b" and "rnd (randfactor_max b retry) = Rand n"
  shows "\<exists>r. randfactor b retry rnd = Inr r"
proof -
  have "0 < real_of_int (randfactor_max b retry) / 4 + ExpM b"
    using randfactor_max_pos [OF assms(1), of b] assms(2) by (simp add: add_pos_nonneg)
  then show ?thesis
    using assms by (simp add: randfactor_def Let_def)
qed

lemma backoff_next_total:
  assumes "1 \<le> retry" and "0 \<le> ExpM b" and "rnd (randfactor_max b retry) = Rand n"
  shows "\<exists>nx. backoff_next b retry rnd = Inr nx"
  using randfactor_total [of retry b rnd n] assms by (auto simp: backoff_next_def Let_def)




text \<open>
  C10. The delay does not depend on the second argument: with the same parameters, the
  same retry count and the same random source, any two values of \<open>maxRetries\<close> give the
  same result (the same duration, or the same panic).
\<close>

theorem backoff_ignores_maxRetries:
  "backoff b retry m1 rnd = backoff b retry m2 rnd"
  by (simp add: backoff_def)

section \<open>Properties of address parsing\<close>

lemma Scheme_setPath: "setPath url p = Inr u \<Longrightarrow> Scheme u = Scheme url"
  by (auto simp: setPath_def split: sum.splits)

lemma url_parse_no_scheme:
  assumes "getScheme raw = Inr ([], r)" and "url_parse pa raw = Inr u"
  shows "Scheme u = []"
  using assms
  by (auto simp: url_parse_def Let_def URL0_def ToLower_def split: if_splits sum.splits
      dest!: Scheme_setPath)

lemma url_Parse_no_scheme:
  assumes "getScheme (fst (Cut raw CHR ''#'')) = Inr ([], r)" and "url_Parse pa raw = Inr u"
  shows "Scheme u = []"
  using assms
  by (auto simp: url_Parse_def Let_def split: if_splits sum.splits dest: url_parse_no_scheme)

text \<open>The parenthesis of the display form ends the scan for a scheme.\<close>

lemma getScheme_display:
  assumes "n = ''udp'' \<or> n = ''udp4'' \<or> n = ''udp6''"
  shows "getScheme (fst (Cut (n @ ''('' @ h @ '')'') CHR ''#'')) =
           Inr ([], fst (Cut (n @ ''('' @ h @ '')'') CHR ''#''))"
  using assms by (auto simp: getScheme_def Cut_def is_letter_def is_digit_def)

lemma ParseAddr_Network:
  "ParseAddr pa s = Inr a \<Longrightarrow> Network a = ''udp'' \<or> Network a = ''udp4'' \<or> Network a = ''udp6''"
  by (auto simp: ParseAddr_def Let_def split: sum.splits if_splits prod.splits)

text \<open>
  C7, as the source behaves. The display form \<open>network(hostport)\<close> of a parsed address
  never parses back to that address, whatever the library's authority parser does: a
  URL parsed from it has no scheme, so it is rejected, and when \<open>url.Parse\<close> fails the
  whole display string becomes the \<open>Addr\<close> field.
\<close>

theorem display_not_reparsed:
  assumes "ParseAddr pa s = Inr a"
  shows "ParseAddr pa (Addr_String a) \<noteq> Inr a"
proof
  assume re: "ParseAddr pa (Addr_String a) = Inr a"
  let ?d = "Network a @ ''('' @ Addr a @ '')''"
  have g: "getScheme (fst (Cut ?d CHR ''#'')) = Inr ([], fst (Cut ?d CHR ''#''))"
    using ParseAddr_Network [OF assms] by (rule getScheme_display)
  show False
  proof (cases "url_Parse pa ?d")
    case (Inl e)
    with re have "\<lparr> Network = ''udp'', Addr = ?d \<rparr> = a"
      by (auto simp: ParseAddr_def Addr_String_def Let_def split: sum.splits if_splits prod.splits)
    then have "Addr a = ?d" by (metis Addr.select_convs(2))
    then have "length (Addr a) = length ?d" by simp
    then show False by simp
  next
    case (Inr u)
    then have "Scheme u = []" using url_Parse_no_scheme [OF g] by blast
    with re Inr show False
      by (auto simp: ParseAddr_def Addr_String_def Let_def split: if_splits)
  qed
qed

theorem display_not_reparsed_witness:
  "ParseAddr simple_authority ''udp4://127.0.0.1:9000''
     = Inr \<lparr> Network = ''udp4'', Addr = ''127.0.0.1:9000'' \<rparr>
   \<and> Addr_String \<lparr> Network = ''udp4'', Addr = ''127.0.0.1:9000'' \<rparr> = ''udp4(127.0.0.1:9000)''
   \<and> ParseAddr simple_authority ''udp4(127.0.0.1:9000)''
     \<noteq> Inr \<lparr> Network = ''udp4'', Addr = ''127.0.0.1:9000'' \<rparr>"
proof -
  have p: "ParseAddr simple_authority ''udp4://127.0.0.1:9000''
             = Inr \<lparr> Network = ''udp4'', Addr = ''127.0.0.1:9000'' \<rparr>"
    by code_simp
  have s: "Addr_String \<lparr> Network = ''udp4'', Addr = ''127.0.0.1:9000'' \<rparr>
             = ''udp4(127.0.0.1:9000)''"
    by (simp add: Addr_String_def)
  show ?thesis using display_not_reparsed [OF p] p s by simp
qed

text \<open>
  C7 as stated fails: \<open>127.0.0.1:9000\<close> parses to the address \<open>udp\<close>,
  \<open>127.0.0.1:9000\<close>, whose display form \<open>udp(127.0.0.1:9000)\<close> is accepted again but
  as a different address, with the whole display string as host and port.
\<close>

theorem roundtrip_counterexample:
  "ParseAddr simple_authority ''127.0.0.1:9000''
     = Inr \<lparr> Network = ''udp'', Addr = ''127.0.0.1:9000'' \<rparr>
   \<and> Addr_String \<lparr> Network = ''udp'', Addr = ''127.0.0.1:9000'' \<rparr> = ''udp(127.0.0.1:9000)''
   \<and> ParseAddr simple_authority ''udp(127.0.0.1:9000)''
     = Inr \<lparr> Network = ''udp'', Addr = ''udp(127.0.0.1:9000)'' \<rparr>"
  by code_simp

text \<open>
  C8 at the input \<open>localhost:9000\<close>: it carries no scheme prefix and splits into the
  host \<open>localhost\<close> and the port \<open>9000\<close>, yet \<open>ParseAddr\<close> rejects it, because
  \<open>url.Parse\<close> reads \<open>localhost\<close> as a scheme and \<open>9000\<close> as its opaque part.
\<close>

theorem bare_hostname_rejected:
  "SplitHostPort ''localhost:9000'' = Inr (''localhost'', ''9000'')
   \<and> ParseAddr simple_authority ''localhost:9000'' = Inl (InvalidProtocol ''localhost'')"
  by code_simp

section \<open>Properties of the backoff directive\<close>

text \<open>
  C6 at the directive \<open>backoff 30s\<close> on a fresh port configuration: the handler
  succeeds, and the stored backoff has the default interval of 15 seconds, not the 30
  seconds of the first argument. The interval is parsed into \<open>p.Backoff.Interval\<close>,
  and the final assignment \<open>p.Backoff = b\<close> overwrites it with the interval of \<open>b\<close>,
  which started as a copy of the defaults.
\<close>

theorem handleBackoff_interval_lost:
  "handleBackoff [duration_node (30 * Second)] NewPortConfig = (NewPortConfig, None)
   \<and> Interval (Backoff NewPortConfig) = 15 * Second"
  by (simp add: handleBackoff_def parseArgsUpTo_def parseArgs_def duration_node_def
      NewPortConfig_def DefaultBackoff_def Check_def Second_def Minute_def)

section \<open>Properties of the gateway\<close>

lemma load_store_same:
  "load h a = Some x \<Longrightarrow> load (store h a y) a = Some y"
  by (auto simp: load_def store_def split: if_splits)

lemma load_store_other:
  "a \<noteq> b \<Longrightarrow> load (store h a y) b = load h b"
  by (auto simp: load_def store_def)

lemma elems_store_cfg:
  assumes "load h a = Some (OConfig c)"
  shows "elems (store h a (OConfig c')) sl = elems h sl"
proof (cases "base sl = Some a")
  case True
  then show ?thesis using assms load_store_same [OF assms, of "OConfig c'"]
    by (simp add: elems_def)
next
  case False
  then show ?thesis
    by (cases "base sl") (auto simp: elems_def load_store_other)
qed

lemma Sprint_addr_store_cfg:
  assumes "load h a = Some (OConfig c)"
  shows "Sprint_addr (store h a (OConfig c')) p = Sprint_addr h p"
proof (cases "p = Some a")
  case True
  then show ?thesis using assms load_store_same [OF assms, of "OConfig c'"]
    by (simp add: Sprint_addr_def)
next
  case False
  then show ?thesis
    by (cases p) (auto simp: Sprint_addr_def load_store_other)
qed

lemma Sprint_addrs_store_cfg:
  assumes "load h a = Some (OConfig c)"
  shows "Sprint_addrs (store h a (OConfig c')) ps = Sprint_addrs h ps"
  by (simp add: Sprint_addrs_def Sprint_addr_store_cfg [OF assms])

lemma gateway_String_store_cfg:
  assumes "load h a = Some (OConfig c)" and "g_cfg g \<noteq> a"
  shows "gateway_String strip fmt_url (store h a (OConfig c')) g = gateway_String strip fmt_url h g"
proof -
  have l: "load (store h a (OConfig c')) (g_cfg g) = load h (g_cfg g)"
    using assms(2) by (simp add: load_store_other)
  have f: "(case load (store h a (OConfig c')) f of Some (OURL u) \<Rightarrow> X u | _ \<Rightarrow> Y) =
           (case load h f of Some (OURL u) \<Rightarrow> X u | _ \<Rightarrow> Y)" for f and X :: "URL \<Rightarrow> gw_error + string" and Y
  proof (cases "f = a")
    case True
    then show ?thesis using assms(1) load_store_same [OF assms(1), of "OConfig c'"] by simp
  next
    case False
    then show ?thesis by (simp add: load_store_other)
  qed
  show ?thesis
    unfolding gateway_String_def l
    by (simp add: f elems_store_cfg [OF assms(1)] Sprint_addrs_store_cfg [OF assms(1)]
        cong: option.case_cong obj.case_cong)
qed

lemma newPorthole_grows:
  "newPorthole addr rdt h = Inr (hole, h') \<Longrightarrow> \<exists>ys. h' = h @ ys"
  by (auto simp: newPorthole_def alloc_def split: option.splits obj.splits)

lemma newGateway_holes_grows:
  "newGateway_holes addrs rdt holes h = Inr (holes', h') \<Longrightarrow> \<exists>ys. h' = h @ ys"
proof (induction addrs arbitrary: holes h)
  case Nil
  then show ?case by simp
next
  case (Cons a addrs)
  from Cons.prems obtain hole h1 where
    p: "newPorthole a rdt h = Inr (hole, h1)" and
    r: "newGateway_holes addrs rdt (holes @ [hole]) h1 = Inr (holes', h')"
    by (auto split: sum.splits)
  from newPorthole_grows [OF p] obtain ys where "h1 = h @ ys" by blast
  moreover from Cons.IH [OF r] obtain zs where "h' = h1 @ zs" by blast
  ultimately show ?case by simp
qed

lemma newGateway_fresh:
  assumes "newGateway cfg h = Inr (g, h1)"
  shows "\<exists>c. load h cfg = Some (OConfig c) \<and> load h1 cfg = Some (OConfig c) \<and>
             load h1 (g_cfg g) = Some (OConfig c) \<and> g_cfg g \<noteq> cfg"
proof -
  from assms obtain c addrs holes h' where
    c: "load h cfg = Some (OConfig c)" and
    hs: "newGateway_holes addrs (ReadTimeout c) [] h = Inr (holes, h')" and
    rest: "(case load h' cfg of
              Some (OConfig c') \<Rightarrow>
                (let (dup, h'') = alloc h' (OConfig c')
                 in Inr (\<lparr> g_cfg = dup, g_in = holes \<rparr>, h''))
            | _ \<Rightarrow> Inl NilDereference) = Inr (g, h1)"
    by (auto simp: newGateway_def split: option.splits obj.splits sum.splits)
  from newGateway_holes_grows [OF hs] obtain ys where h': "h' = h @ ys" by blast
  from c have lt: "cfg < length h" and at: "h ! cfg = OConfig c"
    by (auto simp: load_def split: if_splits)
  have l': "load h' cfg = Some (OConfig c)"
    using lt at by (simp add: load_def h' nth_append)
  from rest l' have g: "g_cfg g = length h'" and h1: "h1 = h' @ [OConfig c]"
    by (auto simp: alloc_def)
  show ?thesis
    using c lt at g h1 h' by (auto simp: load_def nth_append)
qed

text \<open>
  C5, as the source copies. \<open>newGateway\<close> copies the struct \<open>*cfg\<close> into a fresh
  object: after any later assignment to \<open>*cfg\<close> (to any of its fields, including
  \<open>Listen\<close> and \<open>Forward\<close> themselves), the gateway's stored configuration is still
  the one that was passed in, and its display string is unchanged.
\<close>

theorem newGateway_copies_struct:
  assumes "newGateway cfg h = Inr (g, h1)" and "assign_cfg cfg c' h1 = Some h2"
  shows "load h2 (g_cfg g) = load h cfg
       \<and> gateway_String strip fmt_url h2 g = gateway_String strip fmt_url h1 g"
proof -
  from newGateway_fresh [OF assms(1)] obtain c where
    c: "load h cfg = Some (OConfig c)" "load h1 cfg = Some (OConfig c)"
       "load h1 (g_cfg g) = Some (OConfig c)" "g_cfg g \<noteq> cfg"
    by blast
  from assms(2) c(2) have h2: "h2 = store h1 cfg (OConfig c')"
    by (simp add: assign_cfg_def)
  have "load h2 (g_cfg g) = load h cfg"
    using c by (simp add: h2 load_store_other)
  moreover have "gateway_String strip fmt_url h2 g = gateway_String strip fmt_url h1 g"
    unfolding h2 using c(2,4) by (rule gateway_String_store_cfg)
  ultimately show ?thesis by simp
qed

lemma ex_new: "newGateway 0 example_heap = Inr (example_gateway, example_heap1)"
  by (simp add: newGateway_def example_heap_def example_heap1_def example_gateway_def load_def
      elems_def newPorthole_def alloc_def NewPortConfig_def Second_def)

theorem newGateway_copies_struct_witness:
  "newGateway 0 example_heap = Inr (example_gateway, example_heap1)
   \<and> assign_cfg 0 NewPortConfig example_heap1 = Some (store example_heap1 0 (OConfig NewPortConfig))
   \<and> load (store example_heap1 0 (OConfig NewPortConfig)) (g_cfg example_gateway) = load example_heap 0
   \<and> gateway_String plain_strip plain_fmt (store example_heap1 0 (OConfig NewPortConfig)) example_gateway
       = Inr ''[udp(:9000)]->http://example.com/write''"
proof -
  have a: "assign_cfg 0 NewPortConfig example_heap1 = Some (store example_heap1 0 (OConfig NewPortConfig))"
    by (simp add: assign_cfg_def example_heap1_def example_heap_def load_def)
  have s: "gateway_String plain_strip plain_fmt example_heap1 example_gateway
       = Inr ''[udp(:9000)]->http://example.com/write''"
    by (simp add: gateway_String_def example_heap1_def example_heap_def example_gateway_def
        load_def elems_def Sprint_addrs_def Sprint_addr_def Addr_String_def plain_strip_def
        plain_fmt_def URL0_def NewPortConfig_def)
  show ?thesis
    using newGateway_copies_struct [OF ex_new a, of plain_strip plain_fmt] ex_new a s by simp
qed

text \<open>
  C5 as stated fails for what is reached through pointers: the copy shares the \<open>Addr\<close>
  objects of the \<open>Listen\<close> slice and the URL object with the source, so
  \<open>cfg.Listen[0].Network = "udp6"\<close> and \<open>cfg.Forward.Host = "other.example"\<close>
  each change the gateway's display string.
\<close>

theorem newGateway_copy_counterexample:
  "newGateway 0 example_heap = Inr (example_gateway, example_heap1)
   \<and> gateway_String plain_strip plain_fmt example_heap1 example_gateway
       = Inr ''[udp(:9000)]->http://example.com/write''
   \<and> set_Listen_Network 0 0 ''udp6'' example_heap1
       = Some (store example_heap1 2 (OAddr \<lparr> Network = ''udp6'', Addr = '':9000'' \<rparr>))
   \<and> gateway_String plain_strip plain_fmt
        (store example_heap1 2 (OAddr \<lparr> Network = ''udp6'', Addr = '':9000'' \<rparr>)) example_gateway
       = Inr ''[udp6(:9000)]->http://example.com/write''
   \<and> set_Forward_Host 0 ''other.example'' example_heap1
       = Some (store example_heap1 3
            (OURL (URL0\<lparr> Scheme := ''http'', Host := ''other.example'', Path := ''/write'' \<rparr>)))
   \<and> gateway_String plain_strip plain_fmt
        (store example_heap1 3
            (OURL (URL0\<lparr> Scheme := ''http'', Host := ''other.example'', Path := ''/write'' \<rparr>)))
        example_gateway
       = Inr ''[udp(:9000)]->http://other.example/write''"
  by (simp add: ex_new)
    (simp add: gateway_String_def example_heap1_def example_heap_def example_gateway_def
        load_def store_def elems_def Sprint_addrs_def Sprint_addr_def Addr_String_def plain_strip_def
        plain_fmt_def URL0_def NewPortConfig_def set_Listen_Network_def set_Forward_Host_def)

section \<open>Properties of the porthole\<close>












lemma backoff_Default_returns:
  assumes "1 \<le> i"
  shows "\<exists>d. backoff DefaultBackoff i m draw_100 = Inr d"
proof -
  have e: "0 \<le> ExpM DefaultBackoff" by (simp add: DefaultBackoff_def)
  have r: "draw_100 (randfactor_max DefaultBackoff i) = Rand 100" by (simp add: draw_100_def)
  from backoff_next_total [of i DefaultBackoff draw_100 100] assms e r
  obtain nx where "backoff_next DefaultBackoff i draw_100 = Inr nx" by blast
  then show ?thesis using assms by (simp add: backoff_def)
qed

lemma bind_conflict_retried:
  assumes "1 \<le> i" and "i \<le> 10"
  shows "Listen_loop draw_100 i err k (bind_conflict # as) =
           Listen_loop draw_100 (i + 1) (Some (OpError ''listen'' False)) (k + 1) as"
proof -
  obtain d where d: "backoff DefaultBackoff i retries draw_100 = Inr d"
    using backoff_Default_returns [OF assms(1)] by blast
  show ?thesis
    using assms by (simp add: bind_conflict_def listen_def retries_def d [unfolded retries_def])
qed

text \<open>
  C3 at a porthole whose every bind fails with the listener-creation error while the
  context stays live: after the first failure \<open>Listen\<close> binds again, and it returns
  only after ten attempts. The branch for \<open>Op == "listen"\<close> logs that it will not
  retry and has no \<open>return\<close>.
\<close>

theorem Listen_retries_bind_conflict:
  "Listen draw_100 [bind_conflict, bind_conflict] = Running 2
   \<and> Listen draw_100
        [bind_conflict, bind_conflict, bind_conflict, bind_conflict, bind_conflict,
         bind_conflict, bind_conflict, bind_conflict, bind_conflict, bind_conflict]
       = Done (Some (OpError ''listen'' False)) 10"
  by (simp add: Listen_def bind_conflict_retried retries_def del: Listen_loop.simps(2))

section \<open>Properties of the shutdown\<close>

text \<open>
  C4 at an interrupt five seconds after the start: the signal goroutine runs
  \<open>die(); cancel()\<close>, so the context is cancelled at the moment of the shutdown, not a
  second later; the cancel that \<open>DelayFunc\<close> schedules comes after it.
\<close>

theorem Interrupt_cancels_at_once:
  "sup_run [Advance (5 * Second), Interrupt] supervisor0 =
     Some \<lparr> now = 5 * Second, shutdown_at = Some (5 * Second), cancelled_at = Some (5 * Second) \<rparr>
   \<and> sup_run [Advance (5 * Second), Interrupt, Advance Second, DelayFunc_fires] supervisor0 =
     Some \<lparr> now = 6 * Second, shutdown_at = Some (5 * Second), cancelled_at = Some (5 * Second) \<rparr>"
  by (simp add: supervisor0_def die_def cancel_def Second_def)

end
